theory Spec2Isabelle
  imports Main "HOL-Library.Word" "HOL-Library.AList"
begin

section \<open>Identifiers: the store's ObjectID and its hex form\<close>

text \<open>
  The handlers of \<^verbatim>\<open>server/main.go\<close> convert between the wire identifier (a string)
  and the store's \<^verbatim>\<open>primitive.ObjectID\<close>, a \<^verbatim>\<open>[12]byte\<close>. The twelve bytes are read
  here big-endian as one 96-bit word, so that every value of the type is a well-formed
  identifier, as in Go. \<^verbatim>\<open>ObjectID.Hex\<close> is \<^verbatim>\<open>hex.EncodeToString\<close> (two lower-case
  digits per byte, taken from \<^verbatim>\<open>hextable\<close>); \<^verbatim>\<open>ObjectIDFromHex\<close> accepts exactly the
  strings of 24 hex digits of either case (\<^verbatim>\<open>fromHexChar\<close>) and returns the pair
  \<^verbatim>\<open>(NilObjectID, err)\<close> otherwise.
\<close>

type_synonym ObjectID = "96 word"

datatype error =
    ErrInvalidHex
  | ErrNoDocuments
  | DriverError string
  | DecodeError string

fun Error :: "error \<Rightarrow> string" where
  "Error ErrInvalidHex = ''the provided hex string is not a valid ObjectID''"
| "Error ErrNoDocuments = ''mongo: no documents in result''"
| "Error (DriverError m) = m"
| "Error (DecodeError m) = m"

definition NilObjectID :: ObjectID where
  "NilObjectID = 0"

definition hextable :: string where
  "hextable = ''0123456789abcdef''"

definition fromHexChar :: "char \<Rightarrow> nat option" where
  "fromHexChar c =
     (let n = (of_char c :: nat) in
      if 48 \<le> n \<and> n \<le> 57 then Some (n - 48)
      else if 97 \<le> n \<and> n \<le> 102 then Some (n - 97 + 10)
      else if 65 \<le> n \<and> n \<le> 70 then Some (n - 65 + 10)
      else None)"

text \<open>The \<open>k\<close> low-order hex digits of \<open>n\<close>, most significant first.\<close>

fun hex_digits :: "nat \<Rightarrow> nat \<Rightarrow> string" where
  "hex_digits 0 n = []"
| "hex_digits (Suc k) n = hex_digits k (n div 16) @ [hextable ! (n mod 16)]"

text \<open>Reading hex digits left to right into an accumulator; \<open>None\<close> at the first
  character that is no hex digit.\<close>

fun hex_value :: "nat \<Rightarrow> string \<Rightarrow> nat option" where
  "hex_value acc [] = Some acc"
| "hex_value acc (c # cs) =
     (case fromHexChar c of
        None \<Rightarrow> None
      | Some d \<Rightarrow> hex_value (16 * acc + d) cs)"

definition Hex :: "ObjectID \<Rightarrow> string" where
  "Hex oid = hex_digits 24 (unat oid)"

definition ObjectIDFromHex :: "string \<Rightarrow> ObjectID \<times> error option" where
  "ObjectIDFromHex s =
     (if length s \<noteq> 24 then (NilObjectID, Some ErrInvalidHex)
      else case hex_value 0 s of
             None \<Rightarrow> (NilObjectID, Some ErrInvalidHex)
           | Some n \<Rightarrow> (of_nat n, None))"


section \<open>Documents and the \<^verbatim>\<open>BlogItem\<close> struct\<close>

text \<open>
  A BSON value as far as the handlers meet one; \<^verbatim>\<open>bson.M\<close> documents are association
  lists from field names to values. \<open>VInt\<close> and \<open>VString\<close> stand for the key types
  other than ObjectID that an \<^verbatim>\<open>interface{}\<close> may hold.
\<close>

datatype bson_value =
    VObjectID ObjectID
  | VString string
  | VInt int
  | VDoc "(string \<times> bson_value) list"

type_synonym bson_doc = "(string \<times> bson_value) list"

record BlogItem =
  ID :: ObjectID
  AuthorID :: string
  Content :: string
  Title :: string

text \<open>
  Encoding by the struct tags of \<^verbatim>\<open>BlogItem\<close>: \<^verbatim>\<open>_id,omitempty\<close> drops the
  identifier when it is the zero ObjectID; the other three fields are always written, in
  the order of the struct.
\<close>

definition marshal_BlogItem :: "BlogItem \<Rightarrow> bson_doc" where
  "marshal_BlogItem data =
     (if ID data = NilObjectID then [] else [(''_id'', VObjectID (ID data))]) @
     [(''author_id'', VString (AuthorID data)),
      (''content'', VString (Content data)),
      (''title'', VString (Title data))]"

text \<open>
  Decoding into a zero-initialised \<^verbatim>\<open>BlogItem\<close>: a missing field keeps its zero value,
  a field of the wrong type is an error, unknown fields are ignored.
\<close>

definition decode_ObjectID :: "bson_doc \<Rightarrow> string \<Rightarrow> error + ObjectID" where
  "decode_ObjectID doc k =
     (case map_of doc k of
        None \<Rightarrow> Inr NilObjectID
      | Some (VObjectID oid) \<Rightarrow> Inr oid
      | Some _ \<Rightarrow> Inl (DecodeError (''cannot decode into an ObjectID: '' @ k)))"

definition decode_string :: "bson_doc \<Rightarrow> string \<Rightarrow> error + string" where
  "decode_string doc k =
     (case map_of doc k of
        None \<Rightarrow> Inr []
      | Some (VString v) \<Rightarrow> Inr v
      | Some _ \<Rightarrow> Inl (DecodeError (''cannot decode into a string: '' @ k)))"

text \<open>
  A \<^verbatim>\<open>*mongo.SingleResult\<close> holds either the error of the call or the raw document;
  \<^verbatim>\<open>Decode\<close> returns the held error, or the error of the decoding, or fills the struct.
\<close>

type_synonym SingleResult = "error + bson_doc"

definition Decode :: "SingleResult \<Rightarrow> error + BlogItem" where
  "Decode r =
     (case r of
        Inl e \<Rightarrow> Inl e
      | Inr doc \<Rightarrow>
          (case decode_ObjectID doc ''_id'' of
             Inl e \<Rightarrow> Inl e
           | Inr i \<Rightarrow>
               (case decode_string doc ''author_id'' of
                  Inl e \<Rightarrow> Inl e
                | Inr a \<Rightarrow>
                    (case decode_string doc ''content'' of
                       Inl e \<Rightarrow> Inl e
                     | Inr c \<Rightarrow>
                         (case decode_string doc ''title'' of
                            Inl e \<Rightarrow> Inl e
                          | Inr t \<Rightarrow>
                              Inr \<lparr>ID = i, AuthorID = a, Content = c, Title = t\<rparr>)))))"

section \<open>Wire messages\<close>

text \<open>
  The messages of \<^verbatim>\<open>proto/blog.proto\<close>. A message-typed field is a pointer in the
  generated Go code and may be nil, hence \<open>option\<close>; the generated getters are nil-safe
  and return the empty string on a nil receiver.
\<close>

record Blog =
  Blog_Id :: string
  Blog_AuthorId :: string
  Blog_Title :: string
  Blog_Content :: string

record CreateBlogReq =
  CreateBlogReq_Blog :: "Blog option"

record CreateBlogRes =
  CreateBlogRes_Blog :: "Blog option"

record ReadBlogReq =
  ReadBlogReq_Id :: string

record ReadBlogRes =
  ReadBlogRes_Blog :: "Blog option"

record UpdateBlogReq =
  UpdateBlogReq_Blog :: "Blog option"

record UpdateBlogRes =
  UpdateBlogRes_Blog :: "Blog option"

record DeleteBlogReq =
  DeleteBlogReq_Id :: string

record DeleteBlogRes =
  Success :: bool

definition GetId :: "Blog option \<Rightarrow> string" where
  "GetId x = (case x of None \<Rightarrow> [] | Some b \<Rightarrow> Blog_Id b)"

definition GetAuthorId :: "Blog option \<Rightarrow> string" where
  "GetAuthorId x = (case x of None \<Rightarrow> [] | Some b \<Rightarrow> Blog_AuthorId b)"

definition GetTitle :: "Blog option \<Rightarrow> string" where
  "GetTitle x = (case x of None \<Rightarrow> [] | Some b \<Rightarrow> Blog_Title b)"

definition GetContent :: "Blog option \<Rightarrow> string" where
  "GetContent x = (case x of None \<Rightarrow> [] | Some b \<Rightarrow> Blog_Content b)"

section \<open>Status codes, panics and the collection handle\<close>

datatype codes = Internal | InvalidArgument | NotFound

datatype panic = NilPointerDereference | InterfaceConversion

text \<open>What a handler ends with when it does not return a response: a gRPC status
  (\<^verbatim>\<open>status.Errorf\<close>) or a run-time panic. The handlers format the message with
  \<^verbatim>\<open>fmt.Sprintf\<close> and hand it to \<^verbatim>\<open>status.Errorf\<close> as a format with no arguments; what
  that second pass does to a message that contains a percent sign is not modelled.\<close>

datatype failure = Status codes string | Panic panic

definition Errorf :: "codes \<Rightarrow> string \<Rightarrow> failure" where
  "Errorf c msg = Status c msg"

record InsertOneResult =
  InsertedID :: bson_value

record DeleteResult =
  DeletedCount :: int

datatype ReturnDocument = Before | After

text \<open>
  The four methods of \<^verbatim>\<open>*mongo.Collection\<close> that the handlers call on the package
  variable \<^verbatim>\<open>blogdb\<close>. The driver and the database are not part of the repository, so
  the handlers take them as a parameter: any state type \<open>'s\<close> for the store and any
  behaviour of the four calls, each threading the store's state. Contexts are not modelled.
\<close>

record 's Collection =
  InsertOne :: "'s \<Rightarrow> bson_doc \<Rightarrow> 's \<times> (error + InsertOneResult)"
  FindOne :: "'s \<Rightarrow> bson_doc \<Rightarrow> 's \<times> SingleResult"
  FindOneAndUpdate :: "'s \<Rightarrow> bson_doc \<Rightarrow> bson_doc \<Rightarrow> ReturnDocument \<Rightarrow> 's \<times> SingleResult"
  DeleteOne :: "'s \<Rightarrow> bson_doc \<Rightarrow> 's \<times> (error + DeleteResult)"

section \<open>The handlers of \<^verbatim>\<open>server/main.go\<close>\<close>

text \<open>
  \<^verbatim>\<open>CreateBlog\<close>: the struct is built without an identifier, inserted, and the
  \<^verbatim>\<open>InsertedID\<close> of the result is cast to an ObjectID with an unchecked type assertion
  (a panic for any other dynamic type). The hex form is then written through the request's
  own \<^verbatim>\<open>Blog\<close> pointer, which panics when the request carried no blog.
\<close>

definition CreateBlog ::
  "'s Collection \<Rightarrow> 's \<Rightarrow> CreateBlogReq \<Rightarrow> 's \<times> (failure + CreateBlogRes)" where
  "CreateBlog coll s req =
     (let blog = CreateBlogReq_Blog req;
          data = \<lparr>ID = NilObjectID, AuthorID = GetAuthorId blog,
                  Content = GetContent blog, Title = GetTitle blog\<rparr>;
          (s', r) = InsertOne coll s (marshal_BlogItem data)
      in case r of
           Inl err \<Rightarrow> (s', Inl (Errorf Internal (''Internal error: '' @ Error err)))
         | Inr result \<Rightarrow>
             (case InsertedID result of
                VObjectID oid \<Rightarrow>
                  (case blog of
                     None \<Rightarrow> (s', Inl (Panic NilPointerDereference))
                   | Some b \<Rightarrow>
                       (s', Inr \<lparr>CreateBlogRes_Blog = Some (b\<lparr>Blog_Id := Hex oid\<rparr>)\<rparr>))
              | _ \<Rightarrow> (s', Inl (Panic InterfaceConversion))))"

definition ReadBlog ::
  "'s Collection \<Rightarrow> 's \<Rightarrow> ReadBlogReq \<Rightarrow> 's \<times> (failure + ReadBlogRes)" where
  "ReadBlog coll s req =
     (let blogId = ReadBlogReq_Id req;
          (oid, err) = ObjectIDFromHex blogId
      in case err of
           Some e \<Rightarrow>
             (s, Inl (Errorf InvalidArgument (''Could not convert to ObjectId: '' @ Error e)))
         | None \<Rightarrow>
             (let (s', blogFromDB) = FindOne coll s [(''_id'', VObjectID oid)]
              in case Decode blogFromDB of
                   Inl e \<Rightarrow>
                     (s', Inl (Errorf NotFound
                        (''Could not find blog with Object Id '' @ blogId @ '':'' @ Error e)))
                 | Inr data \<Rightarrow>
                     (s', Inr \<lparr>ReadBlogRes_Blog = Some
                        \<lparr>Blog_Id = Hex oid, Blog_AuthorId = AuthorID data,
                         Blog_Title = Title data, Blog_Content = Content data\<rparr>\<rparr>)))"

text \<open>
  \<^verbatim>\<open>UpdateBlog\<close>: when the identifier does not parse, the source builds a status with
  \<^verbatim>\<open>status.Errorf\<close> and drops it; control goes on with the \<^verbatim>\<open>NilObjectID\<close> that
  \<^verbatim>\<open>ObjectIDFromHex\<close> returned beside the error. The option value \<^verbatim>\<open>1\<close> passed to
  \<^verbatim>\<open>SetReturnDocument\<close> is \<^verbatim>\<open>options.After\<close>.
\<close>

definition UpdateBlog ::
  "'s Collection \<Rightarrow> 's \<Rightarrow> UpdateBlogReq \<Rightarrow> 's \<times> (failure + UpdateBlogRes)" where
  "UpdateBlog coll s req =
     (let blog = UpdateBlogReq_Blog req;
          idStr = GetId blog;
          (oid, err) = ObjectIDFromHex idStr;
          update = [(''author_id'', VString (GetAuthorId blog)),
                    (''title'', VString (GetTitle blog)),
                    (''content'', VString (GetContent blog))];
          flt = [(''_id'', VObjectID oid)];
          (s', result) = FindOneAndUpdate coll s flt [(''$set'', VDoc update)] After
      in case Decode result of
           Inl e \<Rightarrow>
             (s', Inl (Errorf NotFound
                (''Could not find blog with Supplied ID '' @ idStr @ '': '' @ Error e)))
         | Inr data \<Rightarrow>
             (s', Inr \<lparr>UpdateBlogRes_Blog = Some
                \<lparr>Blog_Id = Hex (ID data), Blog_AuthorId = AuthorID data,
                 Blog_Title = Title data, Blog_Content = Content data\<rparr>\<rparr>))"

text \<open>\<^verbatim>\<open>DeleteBlog\<close>: the \<^verbatim>\<open>*DeleteResult\<close> of the call is discarded (\<^verbatim>\<open>_\<close>); only
  the error is looked at.\<close>

definition DeleteBlog ::
  "'s Collection \<Rightarrow> 's \<Rightarrow> DeleteBlogReq \<Rightarrow> 's \<times> (failure + DeleteBlogRes)" where
  "DeleteBlog coll s req =
     (let idAsString = DeleteBlogReq_Id req;
          (oid, err) = ObjectIDFromHex idAsString
      in case err of
           Some e \<Rightarrow>
             (s, Inl (Errorf InvalidArgument (''Could not convert to ObjectId: '' @ Error e)))
         | None \<Rightarrow>
             (let (s', r) = DeleteOne coll s [(''_id'', VObjectID oid)]
              in case r of
                   Inl e \<Rightarrow>
                     (s', Inl (Errorf NotFound
                        (''Couldn't find/delete blog with id '' @ idAsString @ '' : '' @ Error e)))
                 | Inr _ \<Rightarrow> (s', Inr \<lparr>Success = True\<rparr>)))"

section \<open>Stores to run the handlers against\<close>

subsection \<open>An in-memory collection\<close>

text \<open>
  A working store, following the documented behaviour of the four driver calls on one
  collection with no faults: the state is the list of stored documents. A filter matches
  a document that has each of the filter's fields with an equal value. \<^verbatim>\<open>InsertOne\<close>
  gives a document without \<^verbatim>\<open>_id\<close> a generated ObjectID (the generator is a parameter, so
  nothing is assumed of the identifiers it picks) and refuses a duplicate key;
  \<^verbatim>\<open>FindOneAndUpdate\<close> applies a \<^verbatim>\<open>$set\<close> to the first match and returns the document
  before or after the update; \<^verbatim>\<open>DeleteOne\<close> removes the first match and reports how
  many documents it removed, with no error when that is none.
\<close>

definition doc_matches :: "bson_doc \<Rightarrow> bson_doc \<Rightarrow> bool" where
  "doc_matches flt d = list_all (\<lambda>(k, v). map_of d k = Some v) flt"

fun update_first :: "('a \<Rightarrow> bool) \<Rightarrow> ('a \<Rightarrow> 'a) \<Rightarrow> 'a list \<Rightarrow> 'a list" where
  "update_first P f [] = []"
| "update_first P f (x # xs) = (if P x then f x # xs else x # update_first P f xs)"

fun delete_first :: "('a \<Rightarrow> bool) \<Rightarrow> 'a list \<Rightarrow> 'a list" where
  "delete_first P [] = []"
| "delete_first P (x # xs) = (if P x then xs else x # delete_first P xs)"

definition apply_set :: "bson_doc \<Rightarrow> bson_doc \<Rightarrow> bson_doc" where
  "apply_set fs d = fold (\<lambda>(k, v). AList.update k v) fs d"

fun set_operator :: "bson_doc \<Rightarrow> bson_doc option" where
  "set_operator [(k, VDoc fs)] = (if k = ''$set'' then Some fs else None)"
| "set_operator _ = None"

definition mem_InsertOne ::
  "(bson_doc list \<Rightarrow> ObjectID) \<Rightarrow> bson_doc list \<Rightarrow> bson_doc
     \<Rightarrow> bson_doc list \<times> (error + InsertOneResult)" where
  "mem_InsertOne NewObjectID ds doc =
     (let (key, doc') =
            (case map_of doc ''_id'' of
               None \<Rightarrow> (VObjectID (NewObjectID ds), (''_id'', VObjectID (NewObjectID ds)) # doc)
             | Some v \<Rightarrow> (v, doc))
      in if list_ex (\<lambda>d. map_of d ''_id'' = Some key) ds
         then (ds, Inl (DriverError ''E11000 duplicate key error''))
         else (ds @ [doc'], Inr \<lparr>InsertedID = key\<rparr>))"

definition mem_FindOne :: "bson_doc list \<Rightarrow> bson_doc \<Rightarrow> bson_doc list \<times> SingleResult" where
  "mem_FindOne ds flt =
     (case find (doc_matches flt) ds of
        None \<Rightarrow> (ds, Inl ErrNoDocuments)
      | Some d \<Rightarrow> (ds, Inr d))"

definition mem_FindOneAndUpdate ::
  "bson_doc list \<Rightarrow> bson_doc \<Rightarrow> bson_doc \<Rightarrow> ReturnDocument \<Rightarrow> bson_doc list \<times> SingleResult" where
  "mem_FindOneAndUpdate ds flt upd rd =
     (case set_operator upd of
        None \<Rightarrow> (ds, Inl (DriverError ''unsupported update document''))
      | Some fs \<Rightarrow>
          (case find (doc_matches flt) ds of
             None \<Rightarrow> (ds, Inl ErrNoDocuments)
           | Some d \<Rightarrow>
               (update_first (doc_matches flt) (apply_set fs) ds,
                Inr (case rd of Before \<Rightarrow> d | After \<Rightarrow> apply_set fs d))))"

definition mem_DeleteOne ::
  "bson_doc list \<Rightarrow> bson_doc \<Rightarrow> bson_doc list \<times> (error + DeleteResult)" where
  "mem_DeleteOne ds flt =
     (case find (doc_matches flt) ds of
        None \<Rightarrow> (ds, Inr \<lparr>DeletedCount = 0\<rparr>)
      | Some d \<Rightarrow> (delete_first (doc_matches flt) ds, Inr \<lparr>DeletedCount = 1\<rparr>))"

definition mem_collection :: "(bson_doc list \<Rightarrow> ObjectID) \<Rightarrow> (bson_doc list) Collection" where
  "mem_collection NewObjectID =
     \<lparr>InsertOne = mem_InsertOne NewObjectID,
      FindOne = mem_FindOne,
      FindOneAndUpdate = mem_FindOneAndUpdate,
      DeleteOne = mem_DeleteOne\<rparr>"

subsection \<open>A store that cannot be reached\<close>

text \<open>Every call fails with the same driver-level error and no state.\<close>

definition unreachable :: "string \<Rightarrow> unit Collection" where
  "unreachable msg =
     \<lparr>InsertOne = (\<lambda>s doc. (s, Inl (DriverError msg))),
      FindOne = (\<lambda>s flt. (s, Inl (DriverError msg))),
      FindOneAndUpdate = (\<lambda>s flt upd rd. (s, Inl (DriverError msg))),
      DeleteOne = (\<lambda>s flt. (s, Inl (DriverError msg)))\<rparr>"

subsection \<open>A store that reports a given key\<close>

text \<open>Every insert succeeds and reports the given value as the key of the new document;
  the collection stays empty for the other calls.\<close>

definition reporting_key :: "bson_value \<Rightarrow> unit Collection" where
  "reporting_key key =
     \<lparr>InsertOne = (\<lambda>s doc. (s, Inr \<lparr>InsertedID = key\<rparr>)),
      FindOne = (\<lambda>s flt. (s, Inl ErrNoDocuments)),
      FindOneAndUpdate = (\<lambda>s flt upd rd. (s, Inl ErrNoDocuments)),
      DeleteOne = (\<lambda>s flt. (s, Inr \<lparr>DeletedCount = 0\<rparr>))\<rparr>"

subsection \<open>Recording the calls\<close>

text \<open>
  Any collection can be wrapped so that each call to the store is written, with its
  arguments, to a log kept beside the store's state. The log of a handler run is then the
  list of store calls that the handler issued.
\<close>

datatype store_call =
    InsertOneCall bson_doc
  | FindOneCall bson_doc
  | FindOneAndUpdateCall bson_doc bson_doc ReturnDocument
  | DeleteOneCall bson_doc

definition recording :: "'s Collection \<Rightarrow> ('s \<times> store_call list) Collection" where
  "recording coll =
     \<lparr>InsertOne = (\<lambda>(s, log) doc.
        (case InsertOne coll s doc of (s', r) \<Rightarrow> ((s', log @ [InsertOneCall doc]), r))),
      FindOne = (\<lambda>(s, log) flt.
        (case FindOne coll s flt of (s', r) \<Rightarrow> ((s', log @ [FindOneCall flt]), r))),
      FindOneAndUpdate = (\<lambda>(s, log) flt upd rd.
        (case FindOneAndUpdate coll s flt upd rd of
           (s', r) \<Rightarrow> ((s', log @ [FindOneAndUpdateCall flt upd rd]), r))),
      DeleteOne = (\<lambda>(s, log) flt.
        (case DeleteOne coll s flt of (s', r) \<Rightarrow> ((s', log @ [DeleteOneCall flt]), r)))\<rparr>"

section \<open>Startup: \<^verbatim>\<open>main\<close>\<close>

text \<open>
  \<^verbatim>\<open>main\<close> is a straight line of calls into the network, the gRPC framework and the
  driver. What those return is the environment of a run; what \<^verbatim>\<open>main\<close> does is the
  list of calls it makes, in order, and the way it ends. The package variables \<^verbatim>\<open>db\<close>
  and \<^verbatim>\<open>blogdb\<close> are the global state: both are nil when the process starts. The client
  that \<^verbatim>\<open>mongo.Connect\<close> returns is bound to the local \<^verbatim>\<open>client\<close>, which nothing
  reads; \<^verbatim>\<open>Ping\<close>, \<^verbatim>\<open>Database\<close> and \<^verbatim>\<open>Disconnect\<close> are called on \<^verbatim>\<open>db\<close>. A method
  of \<^verbatim>\<open>*mongo.Client\<close> that reads the client's fields, as \<^verbatim>\<open>Ping\<close> with a nil read
  preference does, panics on a nil receiver. The body is given for any initial globals
  (\<open>main_from\<close>); the program is \<open>main\<close>, from nil globals. Calls that cannot
  fail and return nothing that is used (\<^verbatim>\<open>log.SetFlags\<close>, \<^verbatim>\<open>signal.Notify\<close>) are left
  out, and so is the failure of \<^verbatim>\<open>Serve\<close> inside its goroutine.
\<close>

datatype Client = Client string

record globals =
  db :: "Client option"
  blogdb :: "(string \<times> string) option"

record env =
  Listen_err :: "string option"
  Connect_err :: "string option"
  Ping_err :: "string option"
  Signal :: bool
  Close_err :: "string option"

datatype event =
    Println string
  | LogPrintf string
  | LogPrintln string
  | Listen "string option"
  | NewServer
  | RegisterBlogServiceServer
  | Connect "string option"
  | Ping "string option"
  | Serve
  | Stop
  | Close "string option"
  | Disconnect

text \<open>\<open>Fatal\<close> is \<^verbatim>\<open>log.Fatalf\<close> with its format string and the text of the error
  passed to it (the process exits with status 1), \<open>Waiting\<close> is a process blocked on the
  signal channel for ever, \<open>Returned\<close> the normal end.\<close>

datatype ending = Fatal string string | Panicked panic | Waiting | Returned

definition main_from :: "globals \<Rightarrow> env \<Rightarrow> event list \<times> globals \<times> ending" where
  "main_from g env =
     (let t1 = [Println ''Starting server on port : 4000...'', Listen (Listen_err env)]
      in case Listen_err env of
           Some e \<Rightarrow> (t1, g, Fatal ''Failed to listen to the server port: 4000 , %v'' e)
         | None \<Rightarrow>
             (let t2 = t1 @ [NewServer, RegisterBlogServiceServer,
                             Println ''Connecting to MongoDB...'', Connect (Connect_err env)]
              in case Connect_err env of
                   Some e \<Rightarrow> (t2, g, Fatal ''Failed to connect to mongo: '' e)
                 | None \<Rightarrow>
                     (case db g of
                        None \<Rightarrow> (t2, g, Panicked NilPointerDereference)
                      | Some c \<Rightarrow>
                          (let t3 = t2 @ [Ping (Ping_err env)]
                           in case Ping_err env of
                                Some e \<Rightarrow>
                                  (t3, g, Fatal ''Could not connect to MongoDB: %v'' e)
                              | None \<Rightarrow>
                                  (let g' = g\<lparr>blogdb := Some (''mydb'', ''blog'')\<rparr>;
                                       t4 = t3 @ [LogPrintf ''Connected to MongoDB.!'', Serve,
                                         Println ''Server  started successfully on port:4000'']
                                   in if \<not> Signal env then (t4, g', Waiting)
                                      else
                                        (t4 @ [Println (CHR 0x0A # '' Stopping the server...''), Stop,
                                               Close (Close_err env)]
                                            @ (case Close_err env of
                                                 None \<Rightarrow> []
                                               | Some e \<Rightarrow>
                                                   [LogPrintln ''Listener not close properly''])
                                            @ [Println ''Closing MongoDB connection'', Disconnect,
                                               Println ''All command executed, done.!''],
                                         g', Returned))))))"

definition main :: "env \<Rightarrow> event list \<times> globals \<times> ending" where
  "main env = main_from \<lparr>db = None, blogdb = None\<rparr> env"

section \<open>Concrete inputs and observations\<close>

text \<open>A generator of identifiers for the in-memory collection, used where a property is
  run on a concrete store: it counts up from a fixed ObjectID.\<close>

definition next_id :: "bson_doc list \<Rightarrow> ObjectID" where
  "next_id ds = of_nat (length ds) + 0x5f1a2b3c4d5e6f708192a3b4"

definition post :: Blog where
  "post = \<lparr>Blog_Id = ''mine'', Blog_AuthorId = ''u1'', Blog_Title = ''Hello'',
           Blog_Content = ''World''\<rparr>"

text \<open>A collection holding one post that also has a field the service does not know,
  and a request that changes the title of that post.\<close>

definition stored :: "bson_doc list" where
  "stored =
     [[(''_id'', VObjectID 0x5f1a2b3c4d5e6f708192a3b4), (''author_id'', VString ''u1''),
       (''content'', VString ''World''), (''title'', VString ''Hello''),
       (''likes'', VInt 3)]]"

definition edit :: UpdateBlogReq where
  "edit = \<lparr>UpdateBlogReq_Blog = Some
     \<lparr>Blog_Id = ''5f1a2b3c4d5e6f708192a3b4'', Blog_AuthorId = ''u1'', Blog_Title = ''Hi'',
      Blog_Content = ''World''\<rparr>\<rparr>"

text \<open>How a run of \<^verbatim>\<open>main\<close> ended early: by \<^verbatim>\<open>log.Fatalf\<close> or by a panic.\<close>

fun stopped :: "ending \<Rightarrow> bool" where
  "stopped (Fatal fmt e) = True"
| "stopped (Panicked p) = True"
| "stopped Waiting = False"
| "stopped Returned = False"

text \<open>The gRPC status code that a handler's result carries, if it carries one.\<close>

fun code_of :: "failure + 'a \<Rightarrow> codes option" where
  "code_of (Inl (Status c m)) = Some c"
| "code_of (Inl (Panic p)) = None"
| "code_of (Inr r) = None"

text \<open>An environment in which every call of \<^verbatim>\<open>main\<close> succeeds and a shutdown signal
  arrives.\<close>

definition reachable :: env where
  "reachable = \<lparr>Listen_err = None, Connect_err = None, Ping_err = None, Signal = True,
                 Close_err = None\<rparr>"

section \<open>Hex strings and identifiers\<close>

text \<open>Each entry of \<^verbatim>\<open>hextable\<close> is read back by \<^verbatim>\<open>fromHexChar\<close> as its index.\<close>

lemma hextable_read_back:
  "list_all (\<lambda>n. fromHexChar (hextable ! n) = Some n) [0..<16]"
  by (simp add: upt_rec hextable_def fromHexChar_def)

lemma fromHexChar_hextable: "n < 16 \<Longrightarrow> fromHexChar (hextable ! n) = Some n"
  using hextable_read_back by (simp add: list_all_iff)

lemma hex_value_snoc:
  "hex_value acc (xs @ [c]) =
     (case hex_value acc xs of
        None \<Rightarrow> None
      | Some a \<Rightarrow> (case fromHexChar c of None \<Rightarrow> None | Some d \<Rightarrow> Some (16 * a + d)))"
  by (induction xs arbitrary: acc) (auto split: option.splits)

text \<open>Reading back the \<open>k\<close> digits written for \<open>n\<close> gives \<open>n\<close> up to \<open>16 ^ k\<close>.\<close>

lemma hex_value_hex_digits:
  "hex_value acc (hex_digits k n) = Some (acc * 16 ^ k + n mod 16 ^ k)"
proof (induction k arbitrary: n)
  case 0
  then show ?case by simp
next
  case (Suc k)
  have "n div 16 mod 16 ^ k * 16 + n mod 16 = n mod (16 * 16 ^ k)"
    by (metis mod_mult2_eq mult.commute add.commute)
  then show ?case
    by (simp add: hex_value_snoc Suc fromHexChar_hextable algebra_simps)
qed

lemma length_hex_digits: "length (hex_digits k n) = k"
  by (induction k arbitrary: n) auto

lemma length_Hex: "length (Hex oid) = 24"
  by (simp only: Hex_def length_hex_digits)

lemma unat_ObjectID_mod: "unat (oid :: ObjectID) mod 16 ^ 24 = unat oid"
proof -
  have "(16 :: nat) ^ 24 = 2 ^ 96"
    by simp
  moreover have "unat oid < 2 ^ LENGTH(96)"
    by (rule unsigned_less)
  ultimately show ?thesis
    by (simp only: mod_less len_num0 len_num1 len_bit0 len_bit1) simp
qed

text \<open>Every ObjectID is read back from its hex form.\<close>

lemma ObjectIDFromHex_Hex: "ObjectIDFromHex (Hex oid) = (oid, None)"
proof -
  have "hex_value 0 (hex_digits 24 (unat oid)) = Some (unat oid)"
    by (simp only: hex_value_hex_digits unat_ObjectID_mod mult_zero_left add_0)
  then have "hex_value 0 (Hex oid) = Some (unat oid)"
    by (simp only: Hex_def)
  moreover have "(of_nat (unat oid) :: ObjectID) = oid"
    by simp
  ultimately show ?thesis
    by (simp only: ObjectIDFromHex_def length_Hex option.case) simp
qed

section \<open>Evaluation lemmas\<close>

lemma hex_digits_numeral [simp]:
  "hex_digits (numeral k) n = hex_digits (pred_numeral k) (n div 16) @ [hextable ! (n mod 16)]"
  by (subst numeral_eq_Suc) simp

text \<open>\<^verbatim>\<open>CreateBlog\<close> with the struct and its encoding unfolded: the handler is one
  \<^verbatim>\<open>InsertOne\<close> of the three caller-supplied fields, followed by the cast.\<close>

lemma CreateBlog_doc:
  "CreateBlog coll s req =
     (case InsertOne coll s
        [(''author_id'', VString (GetAuthorId (CreateBlogReq_Blog req))),
         (''content'', VString (GetContent (CreateBlogReq_Blog req))),
         (''title'', VString (GetTitle (CreateBlogReq_Blog req)))] of
       (s', Inl err) \<Rightarrow> (s', Inl (Status Internal (''Internal error: '' @ Error err)))
     | (s', Inr result) \<Rightarrow>
         (case InsertedID result of
            VObjectID oid \<Rightarrow>
              (case CreateBlogReq_Blog req of
                 None \<Rightarrow> (s', Inl (Panic NilPointerDereference))
               | Some b \<Rightarrow> (s', Inr \<lparr>CreateBlogRes_Blog = Some (b\<lparr>Blog_Id := Hex oid\<rparr>)\<rparr>))
          | _ \<Rightarrow> (s', Inl (Panic InterfaceConversion))))"
  by (simp add: CreateBlog_def marshal_BlogItem_def Errorf_def Let_def
      split: prod.splits sum.splits)

lemma InsertOne_first:
  "InsertOne (mem_collection next_id) []
     [(''author_id'', VString ''u1''), (''content'', VString ''World''),
      (''title'', VString ''Hello'')] =
   ([[(''_id'', VObjectID 0x5f1a2b3c4d5e6f708192a3b4), (''author_id'', VString ''u1''),
      (''content'', VString ''World''), (''title'', VString ''Hello'')]],
    Inr \<lparr>InsertedID = VObjectID 0x5f1a2b3c4d5e6f708192a3b4\<rparr>)"
  by (simp add: mem_collection_def mem_InsertOne_def next_id_def)

lemma Hex_first: "Hex 0x5f1a2b3c4d5e6f708192a3b4 = ''5f1a2b3c4d5e6f708192a3b4''"
  by (simp add: Hex_def hextable_def)

lemma ObjectIDFromHex_first:
  "ObjectIDFromHex ''5f1a2b3c4d5e6f708192a3b4'' = (0x5f1a2b3c4d5e6f708192a3b4, None)"
  by (simp add: ObjectIDFromHex_def fromHexChar_def)

section \<open>The cast in \<^verbatim>\<open>CreateBlog\<close>\<close>

text \<open>
  Claim C8, as stated, fails: an insert result whose \<^verbatim>\<open>InsertedID\<close> is an ObjectID does
  not always lead to the response. For a request that carries no blog message the insert
  succeeds with an ObjectID, the cast passes, and the handler then panics on the write of
  the identifier through the nil \<^verbatim>\<open>Blog\<close> pointer.
\<close>

theorem CreateBlog_no_blog_counterexample:
  "CreateBlog (mem_collection next_id) [] \<lparr>CreateBlogReq_Blog = None\<rparr> =
     ([[(''_id'', VObjectID 0x5f1a2b3c4d5e6f708192a3b4), (''author_id'', VString []),
        (''content'', VString []), (''title'', VString [])]],
      Inl (Panic NilPointerDereference))"
  by (simp add: CreateBlog_doc mem_collection_def mem_InsertOne_def next_id_def
      GetAuthorId_def GetContent_def GetTitle_def)

text \<open>
  Claim C8, amended. The conversion of the store-assigned identifier in \<^verbatim>\<open>CreateBlog\<close>
  is an unchecked type assertion. Whenever the insert call returns a result: if its
  \<^verbatim>\<open>InsertedID\<close> is an ObjectID and the request carries a blog message, the handler
  completes and answers with that blog under the hex string of the ObjectID; if its
  \<^verbatim>\<open>InsertedID\<close> is a key of any other type, the handler panics on the conversion, for
  every request, and returns no status.
\<close>

theorem CreateBlog_unchecked_cast:
  assumes "InsertOne coll s
        [(''author_id'', VString (GetAuthorId (CreateBlogReq_Blog req))),
         (''content'', VString (GetContent (CreateBlogReq_Blog req))),
         (''title'', VString (GetTitle (CreateBlogReq_Blog req)))] = (s', Inr result)"
  shows "(\<forall>oid b. InsertedID result = VObjectID oid \<and> CreateBlogReq_Blog req = Some b \<longrightarrow>
            CreateBlog coll s req =
              (s', Inr \<lparr>CreateBlogRes_Blog = Some (b\<lparr>Blog_Id := Hex oid\<rparr>)\<rparr>))
       \<and> ((\<forall>oid. InsertedID result \<noteq> VObjectID oid) \<longrightarrow>
            CreateBlog coll s req = (s', Inl (Panic InterfaceConversion)))"
proof (intro conjI allI impI)
  fix oid b
  assume "InsertedID result = VObjectID oid \<and> CreateBlogReq_Blog req = Some b"
  with assms show "CreateBlog coll s req =
      (s', Inr \<lparr>CreateBlogRes_Blog = Some (b\<lparr>Blog_Id := Hex oid\<rparr>)\<rparr>)"
    by (simp add: CreateBlog_doc)
next
  assume "\<forall>oid. InsertedID result \<noteq> VObjectID oid"
  with assms show "CreateBlog coll s req = (s', Inl (Panic InterfaceConversion))"
    by (cases "InsertedID result") (simp_all add: CreateBlog_doc)
qed

theorem CreateBlog_unchecked_cast_witness:
  "CreateBlog (mem_collection next_id) [] \<lparr>CreateBlogReq_Blog = Some post\<rparr> =
     ([[(''_id'', VObjectID 0x5f1a2b3c4d5e6f708192a3b4), (''author_id'', VString ''u1''),
        (''content'', VString ''World''), (''title'', VString ''Hello'')]],
      Inr \<lparr>CreateBlogRes_Blog = Some
        \<lparr>Blog_Id = ''5f1a2b3c4d5e6f708192a3b4'', Blog_AuthorId = ''u1'',
         Blog_Title = ''Hello'', Blog_Content = ''World''\<rparr>\<rparr>)
   \<and> CreateBlog (reporting_key (VString ''k1'')) () \<lparr>CreateBlogReq_Blog = Some post\<rparr> =
     ((), Inl (Panic InterfaceConversion))"
proof (rule conjI)
  have ins: "InsertOne (mem_collection next_id) []
        [(''author_id'', VString (GetAuthorId (CreateBlogReq_Blog \<lparr>CreateBlogReq_Blog = Some post\<rparr>))),
         (''content'', VString (GetContent (CreateBlogReq_Blog \<lparr>CreateBlogReq_Blog = Some post\<rparr>))),
         (''title'', VString (GetTitle (CreateBlogReq_Blog \<lparr>CreateBlogReq_Blog = Some post\<rparr>)))] =
     ([[(''_id'', VObjectID 0x5f1a2b3c4d5e6f708192a3b4), (''author_id'', VString ''u1''),
        (''content'', VString ''World''), (''title'', VString ''Hello'')]],
      Inr \<lparr>InsertedID = VObjectID 0x5f1a2b3c4d5e6f708192a3b4\<rparr>)"
    by (simp add: InsertOne_first post_def GetAuthorId_def GetContent_def GetTitle_def)
  from CreateBlog_unchecked_cast [OF ins]
  show "CreateBlog (mem_collection next_id) [] \<lparr>CreateBlogReq_Blog = Some post\<rparr> =
     ([[(''_id'', VObjectID 0x5f1a2b3c4d5e6f708192a3b4), (''author_id'', VString ''u1''),
        (''content'', VString ''World''), (''title'', VString ''Hello'')]],
      Inr \<lparr>CreateBlogRes_Blog = Some
        \<lparr>Blog_Id = ''5f1a2b3c4d5e6f708192a3b4'', Blog_AuthorId = ''u1'',
         Blog_Title = ''Hello'', Blog_Content = ''World''\<rparr>\<rparr>)"
    by (simp add: Hex_first post_def)
next
  have ins: "InsertOne (reporting_key (VString ''k1'')) ()
        [(''author_id'', VString (GetAuthorId (CreateBlogReq_Blog \<lparr>CreateBlogReq_Blog = Some post\<rparr>))),
         (''content'', VString (GetContent (CreateBlogReq_Blog \<lparr>CreateBlogReq_Blog = Some post\<rparr>))),
         (''title'', VString (GetTitle (CreateBlogReq_Blog \<lparr>CreateBlogReq_Blog = Some post\<rparr>)))] =
     ((), Inr \<lparr>InsertedID = VString ''k1''\<rparr>)"
    by (simp add: reporting_key_def)
  from CreateBlog_unchecked_cast [OF ins]
  show "CreateBlog (reporting_key (VString ''k1'')) () \<lparr>CreateBlogReq_Blog = Some post\<rparr> =
     ((), Inl (Panic InterfaceConversion))"
    by simp
qed

section \<open>What \<^verbatim>\<open>CreateBlog\<close> inserts\<close>

lemma recording_InsertOne:
  "InsertOne (recording coll) (s, log) doc =
     ((fst (InsertOne coll s doc), log @ [InsertOneCall doc]), snd (InsertOne coll s doc))"
  by (simp add: recording_def split: prod.splits)

text \<open>
  Claim C10. For every Create request, also one whose blog carries an identifier: the one
  call that the handler issues to the store is an insert of a document with exactly the
  fields \<^verbatim>\<open>author_id\<close>, \<^verbatim>\<open>content\<close> and \<^verbatim>\<open>title\<close> and no identifier field; an
  identifier supplied by the caller changes nothing in what the handler does or answers
  (it is neither rejected nor stored); the identifier in a Create response is the hex
  form of the key that the insert call returned; and such a response is given whenever
  the insert returns an ObjectID for a request with a blog, whatever identifier that blog
  carried.
\<close>

theorem CreateBlog_ignores_supplied_id:
  "snd (fst (CreateBlog (recording coll) (s, []) req)) =
      [InsertOneCall
         [(''author_id'', VString (GetAuthorId (CreateBlogReq_Blog req))),
          (''content'', VString (GetContent (CreateBlogReq_Blog req))),
          (''title'', VString (GetTitle (CreateBlogReq_Blog req)))]]
   \<and> CreateBlog coll s \<lparr>CreateBlogReq_Blog = Some (b\<lparr>Blog_Id := x\<rparr>)\<rparr> =
       CreateBlog coll s \<lparr>CreateBlogReq_Blog = Some b\<rparr>
   \<and> (\<forall>s' res. CreateBlog coll s req = (s', Inr res) \<longrightarrow>
        (\<exists>r oid b'. snd (InsertOne coll s
             [(''author_id'', VString (GetAuthorId (CreateBlogReq_Blog req))),
              (''content'', VString (GetContent (CreateBlogReq_Blog req))),
              (''title'', VString (GetTitle (CreateBlogReq_Blog req)))]) = Inr r
           \<and> InsertedID r = VObjectID oid
           \<and> CreateBlogRes_Blog res = Some b' \<and> Blog_Id b' = Hex oid))
   \<and> (\<forall>s' oid (c :: Blog). InsertOne coll s
             [(''author_id'', VString (Blog_AuthorId c)),
              (''content'', VString (Blog_Content c)),
              (''title'', VString (Blog_Title c))] = (s', Inr \<lparr>InsertedID = VObjectID oid\<rparr>) \<longrightarrow>
        CreateBlog coll s \<lparr>CreateBlogReq_Blog = Some c\<rparr> =
          (s', Inr \<lparr>CreateBlogRes_Blog = Some
             \<lparr>Blog_Id = Hex oid, Blog_AuthorId = Blog_AuthorId c,
              Blog_Title = Blog_Title c, Blog_Content = Blog_Content c\<rparr>\<rparr>))"
proof (intro conjI allI impI)
  show "snd (fst (CreateBlog (recording coll) (s, []) req)) =
      [InsertOneCall
         [(''author_id'', VString (GetAuthorId (CreateBlogReq_Blog req))),
          (''content'', VString (GetContent (CreateBlogReq_Blog req))),
          (''title'', VString (GetTitle (CreateBlogReq_Blog req)))]]"
    by (simp add: CreateBlog_doc recording_InsertOne
        split: prod.splits sum.splits bson_value.splits option.splits)
next
  show "CreateBlog coll s \<lparr>CreateBlogReq_Blog = Some (b\<lparr>Blog_Id := x\<rparr>)\<rparr> =
       CreateBlog coll s \<lparr>CreateBlogReq_Blog = Some b\<rparr>"
    by (simp add: CreateBlog_doc GetAuthorId_def GetContent_def GetTitle_def
        split: prod.splits sum.splits bson_value.splits)
next
  fix s' res
  assume "CreateBlog coll s req = (s', Inr res)"
  then show "\<exists>r oid b'. snd (InsertOne coll s
             [(''author_id'', VString (GetAuthorId (CreateBlogReq_Blog req))),
              (''content'', VString (GetContent (CreateBlogReq_Blog req))),
              (''title'', VString (GetTitle (CreateBlogReq_Blog req)))]) = Inr r
           \<and> InsertedID r = VObjectID oid
           \<and> CreateBlogRes_Blog res = Some b' \<and> Blog_Id b' = Hex oid"
    by (auto simp add: CreateBlog_doc
        split: prod.splits sum.splits bson_value.splits option.splits)
next
  fix s' oid and c :: Blog
  assume "InsertOne coll s
             [(''author_id'', VString (Blog_AuthorId c)),
              (''content'', VString (Blog_Content c)),
              (''title'', VString (Blog_Title c))] = (s', Inr \<lparr>InsertedID = VObjectID oid\<rparr>)"
  then show "CreateBlog coll s \<lparr>CreateBlogReq_Blog = Some c\<rparr> =
          (s', Inr \<lparr>CreateBlogRes_Blog = Some
             \<lparr>Blog_Id = Hex oid, Blog_AuthorId = Blog_AuthorId c,
              Blog_Title = Blog_Title c, Blog_Content = Blog_Content c\<rparr>\<rparr>)"
    by (simp add: CreateBlog_doc GetAuthorId_def GetContent_def GetTitle_def)
qed

text \<open>The run behind the witness: the post carries the identifier \<^verbatim>\<open>mine\<close>; the stored
  document and the response carry the generated one.\<close>

theorem CreateBlog_ignores_supplied_id_witness:
  "snd (fst (CreateBlog (recording (mem_collection next_id)) ([], [])
       \<lparr>CreateBlogReq_Blog = Some post\<rparr>)) =
      [InsertOneCall [(''author_id'', VString ''u1''), (''content'', VString ''World''),
                      (''title'', VString ''Hello'')]]
   \<and> CreateBlog (mem_collection next_id) []
       \<lparr>CreateBlogReq_Blog = Some
          \<lparr>Blog_Id = ''mine'', Blog_AuthorId = ''u1'', Blog_Title = ''Hello'',
           Blog_Content = ''World''\<rparr>\<rparr> =
     ([[(''_id'', VObjectID 0x5f1a2b3c4d5e6f708192a3b4), (''author_id'', VString ''u1''),
        (''content'', VString ''World''), (''title'', VString ''Hello'')]],
      Inr \<lparr>CreateBlogRes_Blog = Some
        \<lparr>Blog_Id = ''5f1a2b3c4d5e6f708192a3b4'', Blog_AuthorId = ''u1'',
         Blog_Title = ''Hello'', Blog_Content = ''World''\<rparr>\<rparr>)
   \<and> (\<exists>r oid b'. snd (InsertOne (mem_collection next_id) []
             [(''author_id'', VString ''u1''), (''content'', VString ''World''),
              (''title'', VString ''Hello'')]) = Inr r
           \<and> InsertedID r = VObjectID oid
           \<and> CreateBlogRes_Blog \<lparr>CreateBlogRes_Blog = Some
                \<lparr>Blog_Id = ''5f1a2b3c4d5e6f708192a3b4'', Blog_AuthorId = ''u1'',
                 Blog_Title = ''Hello'', Blog_Content = ''World''\<rparr>\<rparr> = Some b'
           \<and> Blog_Id b' = Hex oid)"
proof -
  have fields: "GetAuthorId (CreateBlogReq_Blog \<lparr>CreateBlogReq_Blog = Some post\<rparr>) = ''u1''"
    "GetContent (CreateBlogReq_Blog \<lparr>CreateBlogReq_Blog = Some post\<rparr>) = ''World''"
    "GetTitle (CreateBlogReq_Blog \<lparr>CreateBlogReq_Blog = Some post\<rparr>) = ''Hello''"
    by (simp_all add: post_def GetAuthorId_def GetContent_def GetTitle_def)
  note c = CreateBlog_ignores_supplied_id [of "mem_collection next_id" "[]"
      "\<lparr>CreateBlogReq_Blog = Some post\<rparr>", unfolded fields]
  from c have one: "snd (fst (CreateBlog (recording (mem_collection next_id)) ([], [])
       \<lparr>CreateBlogReq_Blog = Some post\<rparr>)) =
      [InsertOneCall [(''author_id'', VString ''u1''), (''content'', VString ''World''),
                      (''title'', VString ''Hello'')]]"
    by blast
  from c have positive: "\<forall>s' oid (c :: Blog). InsertOne (mem_collection next_id) []
             [(''author_id'', VString (Blog_AuthorId c)),
              (''content'', VString (Blog_Content c)),
              (''title'', VString (Blog_Title c))] = (s', Inr \<lparr>InsertedID = VObjectID oid\<rparr>) \<longrightarrow>
        CreateBlog (mem_collection next_id) [] \<lparr>CreateBlogReq_Blog = Some c\<rparr> =
          (s', Inr \<lparr>CreateBlogRes_Blog = Some
             \<lparr>Blog_Id = Hex oid, Blog_AuthorId = Blog_AuthorId c,
              Blog_Title = Blog_Title c, Blog_Content = Blog_Content c\<rparr>\<rparr>)"
    by blast
  from positive [rule_format, of post
      "[[(''_id'', VObjectID 0x5f1a2b3c4d5e6f708192a3b4), (''author_id'', VString ''u1''),
         (''content'', VString ''World''), (''title'', VString ''Hello'')]]"
      "0x5f1a2b3c4d5e6f708192a3b4"]
  have run: "CreateBlog (mem_collection next_id) [] \<lparr>CreateBlogReq_Blog = Some post\<rparr> =
     ([[(''_id'', VObjectID 0x5f1a2b3c4d5e6f708192a3b4), (''author_id'', VString ''u1''),
        (''content'', VString ''World''), (''title'', VString ''Hello'')]],
      Inr \<lparr>CreateBlogRes_Blog = Some
        \<lparr>Blog_Id = ''5f1a2b3c4d5e6f708192a3b4'', Blog_AuthorId = ''u1'',
         Blog_Title = ''Hello'', Blog_Content = ''World''\<rparr>\<rparr>)"
    by (simp add: InsertOne_first Hex_first post_def)
  from c run have two: "\<exists>r oid b'. snd (InsertOne (mem_collection next_id) []
             [(''author_id'', VString ''u1''), (''content'', VString ''World''),
              (''title'', VString ''Hello'')]) = Inr r
           \<and> InsertedID r = VObjectID oid
           \<and> CreateBlogRes_Blog \<lparr>CreateBlogRes_Blog = Some
                \<lparr>Blog_Id = ''5f1a2b3c4d5e6f708192a3b4'', Blog_AuthorId = ''u1'',
                 Blog_Title = ''Hello'', Blog_Content = ''World''\<rparr>\<rparr> = Some b'
           \<and> Blog_Id b' = Hex oid"
    by blast
  from run have run': "CreateBlog (mem_collection next_id) []
       \<lparr>CreateBlogReq_Blog = Some
          \<lparr>Blog_Id = ''mine'', Blog_AuthorId = ''u1'', Blog_Title = ''Hello'',
           Blog_Content = ''World''\<rparr>\<rparr> =
     ([[(''_id'', VObjectID 0x5f1a2b3c4d5e6f708192a3b4), (''author_id'', VString ''u1''),
        (''content'', VString ''World''), (''title'', VString ''Hello'')]],
      Inr \<lparr>CreateBlogRes_Blog = Some
        \<lparr>Blog_Id = ''5f1a2b3c4d5e6f708192a3b4'', Blog_AuthorId = ''u1'',
         Blog_Title = ''Hello'', Blog_Content = ''World''\<rparr>\<rparr>)"
    by (simp add: post_def)
  from one run' two show ?thesis by blast
qed

section \<open>Failures and their status codes\<close>

text \<open>What each handler does on an identifier that does not parse, on an identifier that
  matches nothing, and on a store call that reports no error.\<close>

lemma ReadBlog_invalid_id:
  assumes "snd (ObjectIDFromHex (ReadBlogReq_Id req)) = Some e"
  shows "ReadBlog coll s req =
    (s, Inl (Status InvalidArgument (''Could not convert to ObjectId: '' @ Error e)))"
  using assms by (auto simp add: ReadBlog_def Errorf_def Let_def split: prod.splits)

lemma DeleteBlog_invalid_id:
  assumes "snd (ObjectIDFromHex (DeleteBlogReq_Id req)) = Some e"
  shows "DeleteBlog coll s req =
    (s, Inl (Status InvalidArgument (''Could not convert to ObjectId: '' @ Error e)))"
  using assms by (auto simp add: DeleteBlog_def Errorf_def Let_def split: prod.splits)

lemma DeleteBlog_ignores_count:
  assumes "ObjectIDFromHex (DeleteBlogReq_Id req) = (oid, None)"
    and "DeleteOne coll s [(''_id'', VObjectID oid)] = (s', Inr r)"
  shows "DeleteBlog coll s req = (s', Inr \<lparr>Success = True\<rparr>)"
  using assms by (simp add: DeleteBlog_def)

lemma ReadBlog_absent:
  assumes "ObjectIDFromHex (ReadBlogReq_Id req) = (oid, None)"
    and "find (doc_matches [(''_id'', VObjectID oid)]) ds = None"
  shows "ReadBlog (mem_collection gen) ds req =
    (ds, Inl (Status NotFound (''Could not find blog with Object Id '' @ ReadBlogReq_Id req
        @ '':'' @ Error ErrNoDocuments)))"
  using assms
  by (simp add: ReadBlog_def mem_collection_def mem_FindOne_def Decode_def Errorf_def)

lemma UpdateBlog_absent:
  assumes "ObjectIDFromHex (GetId (UpdateBlogReq_Blog req)) = (oid, None)"
    and "find (doc_matches [(''_id'', VObjectID oid)]) ds = None"
  shows "UpdateBlog (mem_collection gen) ds req =
    (ds, Inl (Status NotFound (''Could not find blog with Supplied ID ''
        @ GetId (UpdateBlogReq_Blog req) @ '': '' @ Error ErrNoDocuments)))"
  using assms
  by (simp add: UpdateBlog_def mem_collection_def mem_FindOneAndUpdate_def Decode_def Errorf_def)

text \<open>
  Claim C1. An identifier that parses but matches no stored document: \<^verbatim>\<open>ReadBlog\<close> and
  \<^verbatim>\<open>UpdateBlog\<close> answer not-found (\<open>ReadBlog_absent\<close>, \<open>UpdateBlog_absent\<close>), but
  \<^verbatim>\<open>DeleteBlog\<close> does not. On the empty collection the delete call removes nothing and
  reports no error, and the handler, which drops the \<^verbatim>\<open>DeleteResult\<close>, answers with
  \<^verbatim>\<open>Success: true\<close>.
\<close>

theorem DeleteBlog_absent_id_reports_success:
  "DeleteBlog (recording (mem_collection next_id)) ([], [])
      \<lparr>DeleteBlogReq_Id = ''5f1a2b3c4d5e6f708192a3b4''\<rparr> =
   (([], [DeleteOneCall [(''_id'', VObjectID 0x5f1a2b3c4d5e6f708192a3b4)]]),
    Inr \<lparr>Success = True\<rparr>)"
  by (simp add: DeleteBlog_def recording_def mem_collection_def mem_DeleteOne_def
      ObjectIDFromHex_first)

text \<open>
  Claim C2. An identifier that does not parse: \<^verbatim>\<open>ReadBlog\<close> and \<^verbatim>\<open>DeleteBlog\<close> return
  invalid-argument and leave the store as it was, for any collection
  (\<open>ReadBlog_invalid_id\<close>, \<open>DeleteBlog_invalid_id\<close>). \<^verbatim>\<open>UpdateBlog\<close> does not return
  there: on the identifier \<^verbatim>\<open>not-an-id\<close> it issues \<^verbatim>\<open>FindOneAndUpdate\<close> with the zero
  ObjectID as the key and answers not-found.
\<close>

theorem UpdateBlog_invalid_id_calls_store:
  "UpdateBlog (recording (mem_collection next_id)) ([], [])
     \<lparr>UpdateBlogReq_Blog = Some (post\<lparr>Blog_Id := ''not-an-id''\<rparr>)\<rparr> =
   (([], [FindOneAndUpdateCall [(''_id'', VObjectID 0)]
            [(''$set'', VDoc [(''author_id'', VString ''u1''), (''title'', VString ''Hello''),
                              (''content'', VString ''World'')])] After]),
    Inl (Status NotFound
      ''Could not find blog with Supplied ID not-an-id: mongo: no documents in result''))"
  by (simp add: UpdateBlog_def recording_def mem_collection_def mem_FindOneAndUpdate_def
      ObjectIDFromHex_def NilObjectID_def Decode_def GetId_def GetAuthorId_def GetContent_def
      GetTitle_def Errorf_def post_def)

text \<open>
  Claim C5, as stated, fails: a driver-level error of the delete call is answered with
  not-found, not with internal.
\<close>

theorem DeleteBlog_driver_error_counterexample:
  "DeleteBlog (unreachable ''connection refused'') ()
     \<lparr>DeleteBlogReq_Id = ''5f1a2b3c4d5e6f708192a3b4''\<rparr> =
   ((), Inl (Status NotFound
      ''Couldn't find/delete blog with id 5f1a2b3c4d5e6f708192a3b4 : connection refused''))"
  by (simp add: DeleteBlog_def unreachable_def ObjectIDFromHex_first Errorf_def)

text \<open>
  Claim C5, amended. The status code is fixed by the handler and the place of the failure,
  not by the kind of the failure. \<^verbatim>\<open>CreateBlog\<close> answers internal exactly when the insert
  call returns an error. \<^verbatim>\<open>ReadBlog\<close> and \<^verbatim>\<open>DeleteBlog\<close> answer invalid-argument when
  the identifier does not parse. Otherwise \<^verbatim>\<open>ReadBlog\<close> answers not-found for every error
  of the lookup or of the decoding, and \<^verbatim>\<open>DeleteBlog\<close> answers not-found for every error
  of the delete call, driver-level errors included; \<^verbatim>\<open>UpdateBlog\<close> on an identifier that
  parses answers not-found for every error of the update call or of the decoding. No
  handler returns another code.
\<close>

theorem status_code_by_call_site:
  "code_of (snd (CreateBlog coll s creq)) =
      (case snd (InsertOne coll s
          [(''author_id'', VString (GetAuthorId (CreateBlogReq_Blog creq))),
           (''content'', VString (GetContent (CreateBlogReq_Blog creq))),
           (''title'', VString (GetTitle (CreateBlogReq_Blog creq)))]) of
         Inl e \<Rightarrow> Some Internal
       | Inr r \<Rightarrow> None)
   \<and> code_of (snd (ReadBlog coll s rreq)) =
      (case snd (ObjectIDFromHex (ReadBlogReq_Id rreq)) of
         Some e \<Rightarrow> Some InvalidArgument
       | None \<Rightarrow>
           (case Decode (snd (FindOne coll s
                   [(''_id'', VObjectID (fst (ObjectIDFromHex (ReadBlogReq_Id rreq))))])) of
              Inl e \<Rightarrow> Some NotFound
            | Inr d \<Rightarrow> None))
   \<and> (snd (ObjectIDFromHex (GetId (UpdateBlogReq_Blog ureq))) = None \<longrightarrow>
       code_of (snd (UpdateBlog coll s ureq)) =
         (case Decode (snd (FindOneAndUpdate coll s
                 [(''_id'', VObjectID (fst (ObjectIDFromHex (GetId (UpdateBlogReq_Blog ureq)))))]
                 [(''$set'', VDoc
                    [(''author_id'', VString (GetAuthorId (UpdateBlogReq_Blog ureq))),
                     (''title'', VString (GetTitle (UpdateBlogReq_Blog ureq))),
                     (''content'', VString (GetContent (UpdateBlogReq_Blog ureq)))])]
                 After)) of
            Inl e \<Rightarrow> Some NotFound
          | Inr d \<Rightarrow> None))
   \<and> code_of (snd (DeleteBlog coll s dreq)) =
      (case snd (ObjectIDFromHex (DeleteBlogReq_Id dreq)) of
         Some e \<Rightarrow> Some InvalidArgument
       | None \<Rightarrow>
           (case snd (DeleteOne coll s
                   [(''_id'', VObjectID (fst (ObjectIDFromHex (DeleteBlogReq_Id dreq))))]) of
              Inl e \<Rightarrow> Some NotFound
            | Inr r \<Rightarrow> None))"
proof (intro conjI impI)
  show "code_of (snd (CreateBlog coll s creq)) =
      (case snd (InsertOne coll s
          [(''author_id'', VString (GetAuthorId (CreateBlogReq_Blog creq))),
           (''content'', VString (GetContent (CreateBlogReq_Blog creq))),
           (''title'', VString (GetTitle (CreateBlogReq_Blog creq)))]) of
         Inl e \<Rightarrow> Some Internal
       | Inr r \<Rightarrow> None)"
    by (simp add: CreateBlog_doc
        split: prod.splits sum.splits bson_value.splits option.splits)
next
  show "code_of (snd (ReadBlog coll s rreq)) =
      (case snd (ObjectIDFromHex (ReadBlogReq_Id rreq)) of
         Some e \<Rightarrow> Some InvalidArgument
       | None \<Rightarrow>
           (case Decode (snd (FindOne coll s
                   [(''_id'', VObjectID (fst (ObjectIDFromHex (ReadBlogReq_Id rreq))))])) of
              Inl e \<Rightarrow> Some NotFound
            | Inr d \<Rightarrow> None))"
    by (auto simp add: ReadBlog_def Errorf_def Let_def split: prod.splits sum.splits option.splits)
next
  assume "snd (ObjectIDFromHex (GetId (UpdateBlogReq_Blog ureq))) = None"
  then show "code_of (snd (UpdateBlog coll s ureq)) =
         (case Decode (snd (FindOneAndUpdate coll s
                 [(''_id'', VObjectID (fst (ObjectIDFromHex (GetId (UpdateBlogReq_Blog ureq)))))]
                 [(''$set'', VDoc
                    [(''author_id'', VString (GetAuthorId (UpdateBlogReq_Blog ureq))),
                     (''title'', VString (GetTitle (UpdateBlogReq_Blog ureq))),
                     (''content'', VString (GetContent (UpdateBlogReq_Blog ureq)))])]
                 After)) of
            Inl e \<Rightarrow> Some NotFound
          | Inr d \<Rightarrow> None)"
    by (auto simp add: UpdateBlog_def Errorf_def Let_def split: prod.splits sum.splits option.splits)
next
  show "code_of (snd (DeleteBlog coll s dreq)) =
      (case snd (ObjectIDFromHex (DeleteBlogReq_Id dreq)) of
         Some e \<Rightarrow> Some InvalidArgument
       | None \<Rightarrow>
           (case snd (DeleteOne coll s
                   [(''_id'', VObjectID (fst (ObjectIDFromHex (DeleteBlogReq_Id dreq))))]) of
              Inl e \<Rightarrow> Some NotFound
            | Inr r \<Rightarrow> None))"
    by (auto simp add: DeleteBlog_def Errorf_def Let_def split: prod.splits sum.splits option.splits)
qed

theorem status_code_by_call_site_witness:
  "code_of (snd (CreateBlog (unreachable ''connection refused'') ()
       \<lparr>CreateBlogReq_Blog = Some post\<rparr>)) = Some Internal
   \<and> code_of (snd (ReadBlog (unreachable ''connection refused'') ()
       \<lparr>ReadBlogReq_Id = ''not-an-id''\<rparr>)) = Some InvalidArgument
   \<and> code_of (snd (UpdateBlog (unreachable ''connection refused'') ()
       \<lparr>UpdateBlogReq_Blog = Some (post\<lparr>Blog_Id := ''5f1a2b3c4d5e6f708192a3b4''\<rparr>)\<rparr>))
       = Some NotFound
   \<and> code_of (snd (DeleteBlog (unreachable ''connection refused'') ()
       \<lparr>DeleteBlogReq_Id = ''5f1a2b3c4d5e6f708192a3b4''\<rparr>)) = Some NotFound"
proof -
  have p: "ObjectIDFromHex ''not-an-id'' = (0, Some ErrInvalidHex)"
    by (simp add: ObjectIDFromHex_def NilObjectID_def)
  have u: "snd (ObjectIDFromHex (GetId (UpdateBlogReq_Blog
      \<lparr>UpdateBlogReq_Blog = Some (post\<lparr>Blog_Id := ''5f1a2b3c4d5e6f708192a3b4''\<rparr>)\<rparr>))) = None"
    by (simp add: GetId_def ObjectIDFromHex_first)
  show ?thesis
    using u status_code_by_call_site [of "unreachable ''connection refused''" "()"
      "\<lparr>CreateBlogReq_Blog = Some post\<rparr>" "\<lparr>ReadBlogReq_Id = ''not-an-id''\<rparr>"
      "\<lparr>UpdateBlogReq_Blog = Some (post\<lparr>Blog_Id := ''5f1a2b3c4d5e6f708192a3b4''\<rparr>)\<rparr>"
      "\<lparr>DeleteBlogReq_Id = ''5f1a2b3c4d5e6f708192a3b4''\<rparr>"]
    by (simp add: unreachable_def p ObjectIDFromHex_first Decode_def)
qed

section \<open>Startup\<close>

text \<open>
  Claim C6. If the connection or the ping fails at startup, the process stops there (by
  \<^verbatim>\<open>log.Fatalf\<close>, or by the panic on the nil client) and \<^verbatim>\<open>Serve\<close> is never called;
  and in any run in which \<^verbatim>\<open>Serve\<close> is called, a ping that returned no error comes
  before it. Both hold for the body of \<^verbatim>\<open>main\<close> from any value of the package
  variables.
\<close>

theorem startup_needs_database:
  "(Connect_err env \<noteq> None \<or> Ping_err env \<noteq> None \<longrightarrow>
      stopped (snd (snd (main_from g env))) \<and> Serve \<notin> set (fst (main_from g env)))
   \<and> (Serve \<in> set (fst (main_from g env)) \<longrightarrow>
      Ping None \<in> set (takeWhile (\<lambda>e. e \<noteq> Serve) (fst (main_from g env))))"
  by (simp add: main_from_def Let_def split: option.splits)

theorem startup_needs_database_witness:
  "stopped (snd (snd (main_from \<lparr>db = Some (Client ''mongodb://localhost:27017''), blogdb = None\<rparr>
       (reachable\<lparr>Ping_err := Some ''server selection timeout''\<rparr>))))
   \<and> Serve \<notin> set (fst (main_from \<lparr>db = Some (Client ''mongodb://localhost:27017''), blogdb = None\<rparr>
       (reachable\<lparr>Ping_err := Some ''server selection timeout''\<rparr>)))
   \<and> Serve \<in> set (fst (main_from \<lparr>db = Some (Client ''mongodb://localhost:27017''), blogdb = None\<rparr> reachable))
   \<and> Ping None \<in> set (takeWhile (\<lambda>e. e \<noteq> Serve)
         (fst (main_from \<lparr>db = Some (Client ''mongodb://localhost:27017''), blogdb = None\<rparr> reachable)))"
proof -
  have a: "Serve \<in> set (fst (main_from \<lparr>db = Some (Client ''mongodb://localhost:27017''), blogdb = None\<rparr> reachable))"
    by (simp add: main_from_def reachable_def)
  have b: "Connect_err (reachable\<lparr>Ping_err := Some ''server selection timeout''\<rparr>) \<noteq> None
      \<or> Ping_err (reachable\<lparr>Ping_err := Some ''server selection timeout''\<rparr>) \<noteq> None"
    by simp
  from a b
    startup_needs_database [of "reachable\<lparr>Ping_err := Some ''server selection timeout''\<rparr>"
      "\<lparr>db = Some (Client ''mongodb://localhost:27017''), blogdb = None\<rparr>"]
    startup_needs_database [of reachable
      "\<lparr>db = Some (Client ''mongodb://localhost:27017''), blogdb = None\<rparr>"]
  show ?thesis by blast
qed

text \<open>
  Claim C7, as stated, fails: not every run crashes on the ping step. A run whose
  \<^verbatim>\<open>net.Listen\<close> fails ends by \<^verbatim>\<open>log.Fatalf\<close> before the driver is touched.
\<close>

theorem main_listen_failure_counterexample:
  "main (reachable\<lparr>Listen_err := Some ''bind: address already in use''\<rparr>) =
     ([Println ''Starting server on port : 4000...'', Listen (Some ''bind: address already in use'')],
      \<lparr>db = None, blogdb = None\<rparr>,
      Fatal ''Failed to listen to the server port: 4000 , %v'' ''bind: address already in use'')"
  by (simp add: main_def main_from_def reachable_def)

text \<open>
  Claim C7, amended. In every run in which \<^verbatim>\<open>net.Listen\<close> and \<^verbatim>\<open>mongo.Connect\<close>
  return no error, \<^verbatim>\<open>main\<close> panics on the nil \<^verbatim>\<open>db\<close> at the ping step, whatever a
  ping of the database would have returned: the last call made is \<^verbatim>\<open>Connect\<close>, no ping
  reaches the database, \<^verbatim>\<open>db\<close> and \<^verbatim>\<open>blogdb\<close> are still nil, and \<^verbatim>\<open>Serve\<close> is not
  called.
\<close>

theorem main_crashes_on_ping:
  assumes "Listen_err env = None" and "Connect_err env = None"
  shows "main env =
     ([Println ''Starting server on port : 4000...'', Listen None, NewServer,
       RegisterBlogServiceServer, Println ''Connecting to MongoDB...'', Connect None],
      \<lparr>db = None, blogdb = None\<rparr>, Panicked NilPointerDereference)"
  using assms by (simp add: main_def main_from_def)

theorem main_crashes_on_ping_witness:
  "main reachable =
     ([Println ''Starting server on port : 4000...'', Listen None, NewServer,
       RegisterBlogServiceServer, Println ''Connecting to MongoDB...'', Connect None],
      \<lparr>db = None, blogdb = None\<rparr>, Panicked NilPointerDereference)"
  using main_crashes_on_ping [of reachable] by (simp add: reachable_def)


section \<open>The in-memory collection under the handlers\<close>

lemma doc_matches_id: "doc_matches [(k, v)] d = (map_of d k = Some v)"
  by (simp add: doc_matches_def)

lemma find_append_unmatched:
  "\<not> list_ex P xs \<Longrightarrow> find P (xs @ ys) = find P ys"
  by (induction xs) auto

lemma find_update_first:
  "find P xs = Some d \<Longrightarrow>
     \<exists>i<length xs. xs ! i = d \<and> P d \<and> update_first P f xs = xs[i := f d]"
proof (induction xs)
  case Nil
  then show ?case by simp
next
  case (Cons x xs)
  show ?case
  proof (cases "P x")
    case True
    with Cons.prems have "x = d" by simp
    with True show ?thesis by (intro exI [of _ 0]) simp
  next
    case False
    with Cons.prems have "find P xs = Some d" by simp
    from Cons.IH [OF this] obtain i where
      "i < length xs" "xs ! i = d" "P d" "update_first P f xs = xs[i := f d]"
      by blast
    with False show ?thesis by (intro exI [of _ "Suc i"]) simp
  qed
qed

lemma map_of_apply_set3:
  "map_of (apply_set [(k1, v1), (k2, v2), (k3, v3)] d) =
     (map_of d)(k1 \<mapsto> v1, k2 \<mapsto> v2, k3 \<mapsto> v3)"
  by (simp add: apply_set_def update_conv')

lemma Decode_Inl: "Decode (Inl e) = Inl e"
  by (simp add: Decode_def)

lemma UpdateBlog_mem:
  "UpdateBlog (mem_collection gen) ds req =
     (case find (doc_matches [(''_id'', VObjectID (fst (ObjectIDFromHex (GetId (UpdateBlogReq_Blog req)))))]) ds of
        None \<Rightarrow>
          (ds, Inl (Status NotFound (''Could not find blog with Supplied ID ''
             @ GetId (UpdateBlogReq_Blog req) @ '': '' @ Error ErrNoDocuments)))
      | Some d \<Rightarrow>
          (case Decode (Inr (apply_set
                  [(''author_id'', VString (GetAuthorId (UpdateBlogReq_Blog req))),
                   (''title'', VString (GetTitle (UpdateBlogReq_Blog req))),
                   (''content'', VString (GetContent (UpdateBlogReq_Blog req)))] d)) of
             Inl e \<Rightarrow>
               (update_first
                  (doc_matches [(''_id'', VObjectID (fst (ObjectIDFromHex (GetId (UpdateBlogReq_Blog req)))))])
                  (apply_set
                    [(''author_id'', VString (GetAuthorId (UpdateBlogReq_Blog req))),
                     (''title'', VString (GetTitle (UpdateBlogReq_Blog req))),
                     (''content'', VString (GetContent (UpdateBlogReq_Blog req)))]) ds,
                Inl (Status NotFound (''Could not find blog with Supplied ID ''
                  @ GetId (UpdateBlogReq_Blog req) @ '': '' @ Error e)))
           | Inr data \<Rightarrow>
               (update_first
                  (doc_matches [(''_id'', VObjectID (fst (ObjectIDFromHex (GetId (UpdateBlogReq_Blog req)))))])
                  (apply_set
                    [(''author_id'', VString (GetAuthorId (UpdateBlogReq_Blog req))),
                     (''title'', VString (GetTitle (UpdateBlogReq_Blog req))),
                     (''content'', VString (GetContent (UpdateBlogReq_Blog req)))]) ds,
                Inr \<lparr>UpdateBlogRes_Blog = Some
                  \<lparr>Blog_Id = Hex (ID data), Blog_AuthorId = AuthorID data,
                   Blog_Title = Title data, Blog_Content = Content data\<rparr>\<rparr>)))"
  by (cases "ObjectIDFromHex (GetId (UpdateBlogReq_Blog req))")
    (simp add: UpdateBlog_def mem_collection_def mem_FindOneAndUpdate_def Decode_Inl Errorf_def
      Let_def split: option.splits sum.splits)

lemma Decode_updated:
  assumes "map_of d ''_id'' = Some (VObjectID oid)"
  shows "Decode (Inr (apply_set
            [(''author_id'', VString a), (''title'', VString t), (''content'', VString c)] d)) =
         Inr \<lparr>ID = oid, AuthorID = a, Content = c, Title = t\<rparr>"
  using assms
  by (simp add: Decode_def decode_ObjectID_def decode_string_def map_of_apply_set3)


text \<open>
  Claim C3. Create, then Read with the identifier that Create returned, on a working
  store. The store assigns the identifier; when the one it generates is not yet a key of
  the collection (otherwise the insert is refused as a duplicate), \<^verbatim>\<open>CreateBlog\<close>
  succeeds for every payload and answers with the payload under the new identifier, the
  hex form of the generated ObjectID, 24 characters long; \<^verbatim>\<open>ReadBlog\<close> with that
  identifier then succeeds, leaves the store as it is, and answers with the same
  identifier and the author id, title and content of the payload.
\<close>

theorem Create_then_Read:
  assumes fresh: "\<not> list_ex (\<lambda>d. map_of d ''_id'' = Some (VObjectID (gen ds))) ds"
  shows "CreateBlog (mem_collection gen) ds \<lparr>CreateBlogReq_Blog = Some b\<rparr> =
           (ds @ [[(''_id'', VObjectID (gen ds)),
                   (''author_id'', VString (Blog_AuthorId b)),
                   (''content'', VString (Blog_Content b)),
                   (''title'', VString (Blog_Title b))]],
            Inr \<lparr>CreateBlogRes_Blog = Some (b\<lparr>Blog_Id := Hex (gen ds)\<rparr>)\<rparr>)
       \<and> ReadBlog (mem_collection gen)
           (ds @ [[(''_id'', VObjectID (gen ds)),
                   (''author_id'', VString (Blog_AuthorId b)),
                   (''content'', VString (Blog_Content b)),
                   (''title'', VString (Blog_Title b))]])
           \<lparr>ReadBlogReq_Id = Hex (gen ds)\<rparr> =
           (ds @ [[(''_id'', VObjectID (gen ds)),
                   (''author_id'', VString (Blog_AuthorId b)),
                   (''content'', VString (Blog_Content b)),
                   (''title'', VString (Blog_Title b))]],
            Inr \<lparr>ReadBlogRes_Blog = Some
              \<lparr>Blog_Id = Hex (gen ds), Blog_AuthorId = Blog_AuthorId b,
               Blog_Title = Blog_Title b, Blog_Content = Blog_Content b\<rparr>\<rparr>)
       \<and> length (Hex (gen ds)) = 24"
proof (intro conjI)
  show "CreateBlog (mem_collection gen) ds \<lparr>CreateBlogReq_Blog = Some b\<rparr> =
           (ds @ [[(''_id'', VObjectID (gen ds)),
                   (''author_id'', VString (Blog_AuthorId b)),
                   (''content'', VString (Blog_Content b)),
                   (''title'', VString (Blog_Title b))]],
            Inr \<lparr>CreateBlogRes_Blog = Some (b\<lparr>Blog_Id := Hex (gen ds)\<rparr>)\<rparr>)"
    using fresh
    by (simp add: CreateBlog_doc mem_collection_def mem_InsertOne_def GetAuthorId_def
        GetContent_def GetTitle_def)
next
  have "find (doc_matches [(''_id'', VObjectID (gen ds))])
          (ds @ [[(''_id'', VObjectID (gen ds)),
                   (''author_id'', VString (Blog_AuthorId b)),
                   (''content'', VString (Blog_Content b)),
                   (''title'', VString (Blog_Title b))]]) =
        Some [(''_id'', VObjectID (gen ds)),
                   (''author_id'', VString (Blog_AuthorId b)),
                   (''content'', VString (Blog_Content b)),
                   (''title'', VString (Blog_Title b))]"
    using fresh by (simp add: find_append_unmatched doc_matches_id [abs_def])
  then show "ReadBlog (mem_collection gen)
           (ds @ [[(''_id'', VObjectID (gen ds)),
                   (''author_id'', VString (Blog_AuthorId b)),
                   (''content'', VString (Blog_Content b)),
                   (''title'', VString (Blog_Title b))]])
           \<lparr>ReadBlogReq_Id = Hex (gen ds)\<rparr> =
           (ds @ [[(''_id'', VObjectID (gen ds)),
                   (''author_id'', VString (Blog_AuthorId b)),
                   (''content'', VString (Blog_Content b)),
                   (''title'', VString (Blog_Title b))]],
            Inr \<lparr>ReadBlogRes_Blog = Some
              \<lparr>Blog_Id = Hex (gen ds), Blog_AuthorId = Blog_AuthorId b,
               Blog_Title = Blog_Title b, Blog_Content = Blog_Content b\<rparr>\<rparr>)"
    by (simp add: ReadBlog_def ObjectIDFromHex_Hex mem_collection_def mem_FindOne_def
        Decode_def decode_ObjectID_def decode_string_def)
next
  show "length (Hex (gen ds)) = 24"
    by (rule length_Hex)
qed

theorem Create_then_Read_witness:
  "CreateBlog (mem_collection next_id) [] \<lparr>CreateBlogReq_Blog = Some post\<rparr> =
     ([[(''_id'', VObjectID 0x5f1a2b3c4d5e6f708192a3b4), (''author_id'', VString ''u1''),
        (''content'', VString ''World''), (''title'', VString ''Hello'')]],
      Inr \<lparr>CreateBlogRes_Blog = Some
        \<lparr>Blog_Id = ''5f1a2b3c4d5e6f708192a3b4'', Blog_AuthorId = ''u1'',
         Blog_Title = ''Hello'', Blog_Content = ''World''\<rparr>\<rparr>)
   \<and> ReadBlog (mem_collection next_id)
       [[(''_id'', VObjectID 0x5f1a2b3c4d5e6f708192a3b4), (''author_id'', VString ''u1''),
         (''content'', VString ''World''), (''title'', VString ''Hello'')]]
       \<lparr>ReadBlogReq_Id = ''5f1a2b3c4d5e6f708192a3b4''\<rparr> =
     ([[(''_id'', VObjectID 0x5f1a2b3c4d5e6f708192a3b4), (''author_id'', VString ''u1''),
        (''content'', VString ''World''), (''title'', VString ''Hello'')]],
      Inr \<lparr>ReadBlogRes_Blog = Some
        \<lparr>Blog_Id = ''5f1a2b3c4d5e6f708192a3b4'', Blog_AuthorId = ''u1'',
         Blog_Title = ''Hello'', Blog_Content = ''World''\<rparr>\<rparr>)"
  using Create_then_Read [of next_id "[]" post]
  by (simp add: next_id_def post_def Hex_first)

text \<open>
  Claim C4. Every Update that succeeds on a working store changed one stored document
  and nothing else in the collection. That document is the one whose identifier is the
  ObjectID that the request's identifier parses to. In it the fields \<^verbatim>\<open>author_id\<close>,
  \<^verbatim>\<open>title\<close> and \<^verbatim>\<open>content\<close> now hold the values of the request, every other field,
  the identifier among them, reads as before, and the response carries the hex form of that
  unchanged identifier together with the three new values.
\<close>

theorem UpdateBlog_frame:
  assumes ok: "UpdateBlog (mem_collection gen) ds req = (ds', Inr res)"
  shows "\<exists>i d d' oid. i < length ds \<and> ds ! i = d \<and> ds' = ds[i := d']
     \<and> oid = fst (ObjectIDFromHex (GetId (UpdateBlogReq_Blog req)))
     \<and> map_of d ''_id'' = Some (VObjectID oid)
     \<and> map_of d' ''_id'' = Some (VObjectID oid)
     \<and> map_of d' ''author_id'' = Some (VString (GetAuthorId (UpdateBlogReq_Blog req)))
     \<and> map_of d' ''title'' = Some (VString (GetTitle (UpdateBlogReq_Blog req)))
     \<and> map_of d' ''content'' = Some (VString (GetContent (UpdateBlogReq_Blog req)))
     \<and> (\<forall>k. k \<noteq> ''author_id'' \<and> k \<noteq> ''title'' \<and> k \<noteq> ''content''
            \<longrightarrow> map_of d' k = map_of d k)
     \<and> res = \<lparr>UpdateBlogRes_Blog = Some
          \<lparr>Blog_Id = Hex oid, Blog_AuthorId = GetAuthorId (UpdateBlogReq_Blog req),
           Blog_Title = GetTitle (UpdateBlogReq_Blog req),
           Blog_Content = GetContent (UpdateBlogReq_Blog req)\<rparr>\<rparr>"
proof -
  let ?blog = "UpdateBlogReq_Blog req"
  let ?oid = "fst (ObjectIDFromHex (GetId ?blog))"
  let ?P = "doc_matches [(''_id'', VObjectID ?oid)]"
  let ?fs = "[(''author_id'', VString (GetAuthorId ?blog)),
              (''title'', VString (GetTitle ?blog)),
              (''content'', VString (GetContent ?blog))]"
  from ok obtain d where found: "find ?P ds = Some d"
    by (cases "find ?P ds") (simp_all add: UpdateBlog_mem)
  from find_update_first [OF found, of "apply_set ?fs"] obtain i where
    i: "i < length ds" "ds ! i = d" "?P d"
      "update_first ?P (apply_set ?fs) ds = ds[i := apply_set ?fs d]"
    by blast
  from i(3) have key: "map_of d ''_id'' = Some (VObjectID ?oid)"
    by (simp add: doc_matches_id)
  note dec = Decode_updated [OF key, of "GetAuthorId ?blog" "GetTitle ?blog" "GetContent ?blog"]
  from ok found dec i(4) have
    ds': "ds' = ds[i := apply_set ?fs d]" and
    res: "res = \<lparr>UpdateBlogRes_Blog = Some
          \<lparr>Blog_Id = Hex ?oid, Blog_AuthorId = GetAuthorId ?blog,
           Blog_Title = GetTitle ?blog, Blog_Content = GetContent ?blog\<rparr>\<rparr>"
    by (simp_all add: UpdateBlog_mem)
  have fields: "map_of (apply_set ?fs d) =
      (map_of d)(''author_id'' \<mapsto> VString (GetAuthorId ?blog),
                 ''title'' \<mapsto> VString (GetTitle ?blog),
                 ''content'' \<mapsto> VString (GetContent ?blog))"
    by (rule map_of_apply_set3)
  show ?thesis
  proof (intro exI conjI)
    show "i < length ds" by (rule i(1))
    show "ds ! i = d" by (rule i(2))
    show "ds' = ds[i := apply_set ?fs d]" by (rule ds')
    show "?oid = fst (ObjectIDFromHex (GetId (UpdateBlogReq_Blog req)))" by (rule refl)
    show "map_of d ''_id'' = Some (VObjectID ?oid)" by (rule key)
    show "map_of (apply_set ?fs d) ''_id'' = Some (VObjectID ?oid)"
      using key by (simp add: fields)
    show "map_of (apply_set ?fs d) ''author_id'' = Some (VString (GetAuthorId ?blog))"
      by (simp add: fields)
    show "map_of (apply_set ?fs d) ''title'' = Some (VString (GetTitle ?blog))"
      by (simp add: fields)
    show "map_of (apply_set ?fs d) ''content'' = Some (VString (GetContent ?blog))"
      by (simp add: fields)
    show "\<forall>k. k \<noteq> ''author_id'' \<and> k \<noteq> ''title'' \<and> k \<noteq> ''content''
            \<longrightarrow> map_of (apply_set ?fs d) k = map_of d k"
      by (simp add: fields)
    show "res = \<lparr>UpdateBlogRes_Blog = Some
          \<lparr>Blog_Id = Hex ?oid, Blog_AuthorId = GetAuthorId ?blog,
           Blog_Title = GetTitle ?blog, Blog_Content = GetContent ?blog\<rparr>\<rparr>"
      by (rule res)
  qed
qed

lemma UpdateBlog_stored:
  "UpdateBlog (mem_collection next_id) stored edit =
     ([[(''_id'', VObjectID 0x5f1a2b3c4d5e6f708192a3b4), (''author_id'', VString ''u1''),
        (''content'', VString ''World''), (''title'', VString ''Hi''), (''likes'', VInt 3)]],
      Inr \<lparr>UpdateBlogRes_Blog = Some
        \<lparr>Blog_Id = ''5f1a2b3c4d5e6f708192a3b4'', Blog_AuthorId = ''u1'', Blog_Title = ''Hi'',
         Blog_Content = ''World''\<rparr>\<rparr>)"
  by (simp add: UpdateBlog_mem stored_def edit_def GetId_def GetAuthorId_def GetTitle_def
      GetContent_def ObjectIDFromHex_first doc_matches_def apply_set_def Decode_def
      decode_ObjectID_def decode_string_def Hex_first)

theorem UpdateBlog_frame_witness:
  "UpdateBlog (mem_collection next_id) stored edit =
     ([[(''_id'', VObjectID 0x5f1a2b3c4d5e6f708192a3b4), (''author_id'', VString ''u1''),
        (''content'', VString ''World''), (''title'', VString ''Hi''), (''likes'', VInt 3)]],
      Inr \<lparr>UpdateBlogRes_Blog = Some
        \<lparr>Blog_Id = ''5f1a2b3c4d5e6f708192a3b4'', Blog_AuthorId = ''u1'', Blog_Title = ''Hi'',
         Blog_Content = ''World''\<rparr>\<rparr>)
   \<and> (\<exists>i d d' oid. i < length stored \<and> stored ! i = d
     \<and> [[(''_id'', VObjectID 0x5f1a2b3c4d5e6f708192a3b4), (''author_id'', VString ''u1''),
         (''content'', VString ''World''), (''title'', VString ''Hi''), (''likes'', VInt 3)]]
        = stored[i := d']
     \<and> oid = fst (ObjectIDFromHex (GetId (UpdateBlogReq_Blog edit)))
     \<and> map_of d ''_id'' = Some (VObjectID oid)
     \<and> map_of d' ''_id'' = Some (VObjectID oid)
     \<and> map_of d' ''author_id'' = Some (VString (GetAuthorId (UpdateBlogReq_Blog edit)))
     \<and> map_of d' ''title'' = Some (VString (GetTitle (UpdateBlogReq_Blog edit)))
     \<and> map_of d' ''content'' = Some (VString (GetContent (UpdateBlogReq_Blog edit)))
     \<and> (\<forall>k. k \<noteq> ''author_id'' \<and> k \<noteq> ''title'' \<and> k \<noteq> ''content''
            \<longrightarrow> map_of d' k = map_of d k)
     \<and> \<lparr>UpdateBlogRes_Blog = Some
        \<lparr>Blog_Id = ''5f1a2b3c4d5e6f708192a3b4'', Blog_AuthorId = ''u1'', Blog_Title = ''Hi'',
         Blog_Content = ''World''\<rparr>\<rparr> = \<lparr>UpdateBlogRes_Blog = Some
          \<lparr>Blog_Id = Hex oid, Blog_AuthorId = GetAuthorId (UpdateBlogReq_Blog edit),
           Blog_Title = GetTitle (UpdateBlogReq_Blog edit),
           Blog_Content = GetContent (UpdateBlogReq_Blog edit)\<rparr>\<rparr>)"
proof (rule conjI)
  show "UpdateBlog (mem_collection next_id) stored edit =
     ([[(''_id'', VObjectID 0x5f1a2b3c4d5e6f708192a3b4), (''author_id'', VString ''u1''),
        (''content'', VString ''World''), (''title'', VString ''Hi''), (''likes'', VInt 3)]],
      Inr \<lparr>UpdateBlogRes_Blog = Some
        \<lparr>Blog_Id = ''5f1a2b3c4d5e6f708192a3b4'', Blog_AuthorId = ''u1'', Blog_Title = ''Hi'',
         Blog_Content = ''World''\<rparr>\<rparr>)"
    by (rule UpdateBlog_stored)
next
  show "\<exists>i d d' oid. i < length stored \<and> stored ! i = d
     \<and> [[(''_id'', VObjectID 0x5f1a2b3c4d5e6f708192a3b4), (''author_id'', VString ''u1''),
         (''content'', VString ''World''), (''title'', VString ''Hi''), (''likes'', VInt 3)]]
        = stored[i := d']
     \<and> oid = fst (ObjectIDFromHex (GetId (UpdateBlogReq_Blog edit)))
     \<and> map_of d ''_id'' = Some (VObjectID oid)
     \<and> map_of d' ''_id'' = Some (VObjectID oid)
     \<and> map_of d' ''author_id'' = Some (VString (GetAuthorId (UpdateBlogReq_Blog edit)))
     \<and> map_of d' ''title'' = Some (VString (GetTitle (UpdateBlogReq_Blog edit)))
     \<and> map_of d' ''content'' = Some (VString (GetContent (UpdateBlogReq_Blog edit)))
     \<and> (\<forall>k. k \<noteq> ''author_id'' \<and> k \<noteq> ''title'' \<and> k \<noteq> ''content''
            \<longrightarrow> map_of d' k = map_of d k)
     \<and> \<lparr>UpdateBlogRes_Blog = Some
        \<lparr>Blog_Id = ''5f1a2b3c4d5e6f708192a3b4'', Blog_AuthorId = ''u1'', Blog_Title = ''Hi'',
         Blog_Content = ''World''\<rparr>\<rparr> = \<lparr>UpdateBlogRes_Blog = Some
          \<lparr>Blog_Id = Hex oid, Blog_AuthorId = GetAuthorId (UpdateBlogReq_Blog edit),
           Blog_Title = GetTitle (UpdateBlogReq_Blog edit),
           Blog_Content = GetContent (UpdateBlogReq_Blog edit)\<rparr>\<rparr>"
    by (rule UpdateBlog_frame [OF UpdateBlog_stored])
qed

end
